theory Spec2Isabelle
  imports Main
begin

section \<open>JavaScript values and strings\<close>

text \<open>
  The three components exchange JSON data with the backend and test it with JavaScript's
  truthiness (\<^verbatim>\<open>if (result.evaluation)\<close>, \<^verbatim>\<open>a || b\<close>). A value is therefore modelled
  with its dynamic type. Strings are lists of 8-bit characters; numbers occurring in the
  data are integers (only their truthiness and their decimal rendering are consulted); an
  object is the list of its own properties, each key once.
\<close>

datatype jsval =
    JUndefined
  | JNull
  | JBool bool
  | JNum int
  | JStr string
  | JArr "jsval list"
  | JObj "(string \<times> jsval) list"

text \<open>ToBoolean.\<close>

fun truthy :: "jsval \<Rightarrow> bool" where
  "truthy JUndefined = False"
| "truthy JNull = False"
| "truthy (JBool b) = b"
| "truthy (JNum n) = (n \<noteq> 0)"
| "truthy (JStr s) = (s \<noteq> [])"
| "truthy (JArr vs) = True"
| "truthy (JObj kvs) = True"

text \<open>\<^verbatim>\<open>a || b\<close> on values and on strings.\<close>

definition js_or :: "jsval \<Rightarrow> jsval \<Rightarrow> jsval" where
  "js_or a b = (if truthy a then a else b)"

definition str_or :: "string \<Rightarrow> string \<Rightarrow> string" where
  "str_or a b = (if a \<noteq> [] then a else b)"

text \<open>
  Property read \<^verbatim>\<open>v.k\<close> for the data properties the components use (\<^verbatim>\<open>detail\<close>,
  \<^verbatim>\<open>error\<close>, \<^verbatim>\<open>evaluation\<close>, \<^verbatim>\<open>interview_complete\<close>, \<^verbatim>\<open>next_question\<close>,
  \<^verbatim>\<open>question\<close>, \<^verbatim>\<open>session_id\<close>, \<^verbatim>\<open>id\<close>): only objects carry them; every other
  non-nullish value yields \<^verbatim>\<open>undefined\<close>. Reading a property of \<^verbatim>\<open>null\<close> or
  \<^verbatim>\<open>undefined\<close> throws a TypeError, see \<open>get_prop\<close> below.
\<close>

fun js_prop :: "jsval \<Rightarrow> string \<Rightarrow> jsval" where
  "js_prop (JObj kvs) k = (case map_of kvs k of None \<Rightarrow> JUndefined | Some v \<Rightarrow> v)"
| "js_prop v k = JUndefined"

definition nullish :: "jsval \<Rightarrow> bool" where
  "nullish v = (v = JUndefined \<or> v = JNull)"

text \<open>Decimal rendering of numbers, as in template literals.\<close>

definition digit :: "nat \<Rightarrow> char" where
  "digit d = ''0123456789'' ! (d mod 10)"

function show_nat :: "nat \<Rightarrow> string" where
  "show_nat n = (if n < 10 then [digit n] else show_nat (n div 10) @ [digit n])"
  by pat_completeness auto
termination
  by (relation "measure (\<lambda>n. n)") auto

definition show_int :: "int \<Rightarrow> string" where
  "show_int i = (if i < 0 then CHR ''-'' # show_nat (nat (- i)) else show_nat (nat i))"

fun join_comma :: "string list \<Rightarrow> string" where
  "join_comma [] = []"
| "join_comma [s] = s"
| "join_comma (s # t # ss) = s @ '','' @ join_comma (t # ss)"

text \<open>ToString, as applied by template literals, \<^verbatim>\<open>new Error(v)\<close> and \<^verbatim>\<open>FormData.append\<close>.\<close>

fun to_string :: "jsval \<Rightarrow> string" where
  "to_string JUndefined = ''undefined''"
| "to_string JNull = ''null''"
| "to_string (JBool b) = (if b then ''true'' else ''false'')"
| "to_string (JNum n) = show_int n"
| "to_string (JStr s) = s"
| "to_string (JArr vs) =
     join_comma (map (\<lambda>v. if v = JUndefined \<or> v = JNull then [] else to_string v) vs)"
| "to_string (JObj kvs) = ''[object Object]''"

text \<open>
  \<^verbatim>\<open>String.prototype.trim\<close>: white space and line terminators are removed at both ends.
  Among 8-bit characters these are TAB, LF, VT, FF, CR, SPACE and NBSP.
\<close>

definition is_ws :: "char \<Rightarrow> bool" where
  "is_ws c = (c \<in> set [CHR 0x09, CHR 0x0A, CHR 0x0B, CHR 0x0C, CHR 0x0D, CHR 0x20, CHR 0xA0])"

definition trim :: "string \<Rightarrow> string" where
  "trim s = rev (dropWhile is_ws (rev (dropWhile is_ws s)))"

text \<open>\<^verbatim>\<open>String.prototype.includes\<close>.\<close>

fun str_includes :: "string \<Rightarrow> string \<Rightarrow> bool" where
  "str_includes [] sub = (sub = [])"
| "str_includes (c # cs) sub = (take (length sub) (c # cs) = sub \<or> str_includes cs sub)"

text \<open>Thrown values: every exception the components see is an \<^verbatim>\<open>Error\<close> with a message.\<close>

datatype js_error = JsError string

fun message :: "js_error \<Rightarrow> string" where
  "message (JsError m) = m"

section \<open>The host platform\<close>

text \<open>
  The browser is a parameter of the model. What it contributes to the behaviour of the
  components is: the messages of the errors it throws, whether the \<^verbatim>\<open>File\<close> constructor
  succeeds, which recording formats \<^verbatim>\<open>MediaRecorder.isTypeSupported\<close> accepts and the
  format a recorder reports when none was requested.
\<close>

record host =
  json_syntax_msg :: string
  body_used_msg :: string
  null_prop_msg :: string
  file_ctor_throws :: bool
  isTypeSupported :: "string \<Rightarrow> bool"
  default_mimeType :: string

text \<open>\<^verbatim>\<open>v.k\<close> with the TypeError of a nullish receiver.\<close>

definition get_prop :: "host \<Rightarrow> jsval \<Rightarrow> string \<Rightarrow> js_error + jsval" where
  "get_prop h v k = (if nullish v then Inl (JsError (null_prop_msg h)) else Inr (js_prop v k))"

subsection \<open>Responses of \<^verbatim>\<open>fetch\<close>\<close>

text \<open>
  A response carries its status, its body text and what \<^verbatim>\<open>JSON.parse\<close> makes of that
  text (\<open>None\<close> when it is not JSON). Following the Fetch standard, a body is a stream
  that is consumed by the first of \<^verbatim>\<open>json()\<close> and \<^verbatim>\<open>text()\<close>, also when parsing
  fails; a further read of a consumed body rejects with a TypeError. Responses with a null
  body (\<open>body_null\<close>) read as the empty byte sequence every time. The flag \<open>used\<close>
  threads the consumption through the reads.
\<close>

record response =
  status :: nat
  body_null :: bool
  body_text :: string
  body_json :: "jsval option"

definition ok :: "response \<Rightarrow> bool" where
  "ok r = (200 \<le> status r \<and> status r \<le> 299)"

definition response_json :: "host \<Rightarrow> response \<Rightarrow> bool \<Rightarrow> (js_error + jsval) \<times> bool" where
  "response_json h r used =
     (if used \<and> \<not> body_null r then (Inl (JsError (body_used_msg h)), used)
      else (case (if body_null r then None else body_json r) of
              None \<Rightarrow> (Inl (JsError (json_syntax_msg h)), True)
            | Some v \<Rightarrow> (Inr v, True)))"

definition response_text :: "host \<Rightarrow> response \<Rightarrow> bool \<Rightarrow> (js_error + string) \<times> bool" where
  "response_text h r used =
     (if used \<and> \<not> body_null r then (Inl (JsError (body_used_msg h)), used)
      else (Inr (if body_null r then [] else body_text r), True))"

datatype fetch_outcome = Rejected string | Responded response

subsection \<open>Blobs, files and multipart forms\<close>

record blob =
  blob_size :: nat
  blob_type :: string

record js_file =
  file_name :: string
  file_size :: nat
  file_type :: string

datatype form_value = FText string | FFile js_file

type_synonym form = "(string \<times> form_value) list"

text \<open>\<^verbatim>\<open>new File([blob], name, {type})\<close>.\<close>

definition new_File :: "host \<Rightarrow> blob \<Rightarrow> string \<Rightarrow> string \<Rightarrow> js_error + js_file" where
  "new_File h b nm ty =
     (if file_ctor_throws h then Inl (JsError ''File is not a constructor'')
      else Inr \<lparr>file_name = nm, file_size = blob_size b, file_type = ty\<rparr>)"

section \<open>Interview Flow (\<^verbatim>\<open>Interview.js\<close>)\<close>

record interview =
  sessionData :: jsval
  currentQuestion :: jsval
  questionNumber :: nat
  loading :: bool
  feedback :: jsval
  showFeedback :: bool
  error :: jsval

text \<open>
  Effects visible outside the component, in the order they happen: alerts, the submission
  request, the timer armed for the feedback dwell (its callback closes over the parsed
  response) and the completion callback \<^verbatim>\<open>onComplete\<close> of the Session Shell.
\<close>

datatype effect =
    Alert string
  | Fetch form
  | SetTimeout jsval nat
  | OnComplete

text \<open>The initial state and the effect that loads the session's first question.\<close>

definition interview_init :: "jsval \<Rightarrow> interview" where
  "interview_init sd =
     \<lparr>sessionData = sd, currentQuestion = JNull, questionNumber = 1, loading = False,
      feedback = JNull, showFeedback = False, error = JNull\<rparr>"

definition on_mount :: "interview \<Rightarrow> interview" where
  "on_mount s =
     (if truthy (sessionData s) \<and> truthy (js_prop (sessionData s) ''question'')
      then s\<lparr>currentQuestion := js_prop (sessionData s) ''question''\<rparr> else s)"

text \<open>Lines 28--42: the multipart form.\<close>

definition build_form :: "host \<Rightarrow> interview \<Rightarrow> string \<Rightarrow> js_file option \<Rightarrow> js_error + form" where
  "build_form h s answerText audioFile =
     (case get_prop h (sessionData s) ''session_id'' of
        Inl e \<Rightarrow> Inl e
      | Inr sid \<Rightarrow>
          (case get_prop h (currentQuestion s) ''id'' of
             Inl e \<Rightarrow> Inl e
           | Inr qid \<Rightarrow>
               Inr ([(''session_id'', FText (to_string sid)),
                     (''question_id'', FText (to_string qid)),
                     (''answer_text'', FText (str_or answerText []))]
                    @ (case audioFile of None \<Rightarrow> [] | Some f \<Rightarrow> [(''audio_file'', FFile f)]))))"

text \<open>Lines 62--72: the message of a non-2xx response.\<close>

definition text_fallback :: "host \<Rightarrow> response \<Rightarrow> bool \<Rightarrow> js_error + jsval" where
  "text_fallback h r used =
     (case fst (response_text h r used) of
        Inl e \<Rightarrow> Inl e
      | Inr textError \<Rightarrow>
          Inr (JStr (''Server error ('' @ show_nat (status r) @ ''): '' @ textError)))"

definition error_message :: "host \<Rightarrow> response \<Rightarrow> js_error + jsval" where
  "error_message h r =
     (case response_json h r False of
        (Inl parseError, used) \<Rightarrow> text_fallback h r used
      | (Inr errorData, used) \<Rightarrow>
          (case get_prop h errorData ''detail'' of
             Inl parseError \<Rightarrow> text_fallback h r used
           | Inr detail \<Rightarrow>
               Inr (js_or detail
                     (js_or (js_prop errorData ''error'') (JStr ''Failed to submit answer'')))))"

text \<open>
  Lines 28--105: the body of the \<^verbatim>\<open>try\<close> block. It returns how the block ended (a
  thrown error or normal completion), the state and the effects up to that point.
\<close>

definition submit_try ::
  "host \<Rightarrow> (form \<Rightarrow> fetch_outcome) \<Rightarrow> interview \<Rightarrow> string \<Rightarrow> js_file option
     \<Rightarrow> (js_error + unit) \<times> interview \<times> effect list" where
  "submit_try h net s answerText audioFile =
     (case build_form h s answerText audioFile of
        Inl e \<Rightarrow> (Inl e, s, [])
      | Inr formData \<Rightarrow>
          (case net formData of
             Rejected m \<Rightarrow> (Inl (JsError m), s, [Fetch formData])
           | Responded r \<Rightarrow>
               if \<not> ok r then
                 (case error_message h r of
                    Inl e \<Rightarrow> (Inl e, s, [Fetch formData])
                  | Inr errorMessage \<Rightarrow>
                      (Inl (JsError (to_string errorMessage)),
                       s\<lparr>error := errorMessage\<rparr>,
                       [Fetch formData, Alert (''Error: '' @ to_string errorMessage)]))
               else
                 (case fst (response_json h r False) of
                    Inl e \<Rightarrow> (Inl e, s, [Fetch formData])
                  | Inr result \<Rightarrow>
                      (case get_prop h result ''evaluation'' of
                         Inl e \<Rightarrow> (Inl e, s, [Fetch formData])
                       | Inr evaluation \<Rightarrow>
                           if \<not> truthy evaluation then
                             (Inl (JsError ''Invalid response format - missing evaluation''),
                              s, [Fetch formData])
                           else
                             (Inr (),
                              s\<lparr>feedback := evaluation, showFeedback := True\<rparr>,
                              [Fetch formData, SetTimeout result 3000])))))"

text \<open>
  The message of the error that ends the \<^verbatim>\<open>try\<close> block at lines 79--85 when a 2xx
  response has no usable evaluation: reading \<^verbatim>\<open>result.evaluation\<close> of a \<^verbatim>\<open>null\<close> body
  throws the host's TypeError, a falsy evaluation throws the error of line 84.
\<close>

definition missing_evaluation_msg :: "host \<Rightarrow> jsval \<Rightarrow> string" where
  "missing_evaluation_msg h v =
     (if nullish v then null_prop_msg h else ''Invalid response format - missing evaluation'')"

text \<open>
  \<^verbatim>\<open>submitAnswer\<close>, lines 18--118. The first component is the outcome of the promise the
  async function returns: the \<^verbatim>\<open>catch\<close> clause handles every error of the body and
  rethrows nothing.
\<close>

definition submitAnswer ::
  "host \<Rightarrow> (form \<Rightarrow> fetch_outcome) \<Rightarrow> interview \<Rightarrow> string \<Rightarrow> js_file option
     \<Rightarrow> (js_error + unit) \<times> interview \<times> effect list" where
  "submitAnswer h net s answerText audioFile =
     (if \<not> truthy (currentQuestion s) then
        (Inr (), s, [Alert ''No question available to answer''])
      else
        (case submit_try h net (s\<lparr>loading := True, error := JNull\<rparr>) answerText audioFile of
           (Inr u, s', effs) \<Rightarrow> (Inr (), s'\<lparr>loading := False\<rparr>, effs)
         | (Inl e, s', effs) \<Rightarrow>
             (Inr (),
              s'\<lparr>error := JStr (str_or (message e) ''Network error occurred''),
                 loading := False\<rparr>,
              effs @ (if \<not> str_includes (message e) ''Server error''
                      then [Alert ''Failed to submit answer. Please check your connection and try again.'']
                      else []))))"

text \<open>Lines 91--105: the callback of the timer, run after the dwell of 3000 ms.\<close>

definition dwell_callback :: "jsval \<Rightarrow> interview \<Rightarrow> interview \<times> effect list" where
  "dwell_callback result s =
     (if truthy (js_prop result ''interview_complete'') then (s, [OnComplete])
      else if truthy (js_prop result ''next_question'') then
        (s\<lparr>currentQuestion := js_prop result ''next_question'',
           questionNumber := questionNumber s + 1,
           feedback := JNull,
           showFeedback := False\<rparr>, [])
      else (s\<lparr>error := JStr ''Unexpected response from server''\<rparr>, []))"

text \<open>Lines 135--138: the retry exit of the error view.\<close>

definition try_again :: "interview \<Rightarrow> interview" where
  "try_again s = s\<lparr>error := JNull\<rparr>"

text \<open>
  Lines 120--248: what the component renders. The four views are the states of the flow;
  the order of the tests is the order of the \<^verbatim>\<open>if\<close> statements.
\<close>

datatype flow_state = Active | Submitting | FeedbackShown | Errored

definition view :: "interview \<Rightarrow> flow_state" where
  "view s =
     (if loading s then Submitting
      else if truthy (error s) then Errored
      else if showFeedback s \<and> truthy (feedback s) then FeedbackShown
      else Active)"

section \<open>Answer Capture (\<^verbatim>\<open>AudioRecorder.js\<close>)\<close>

text \<open>
  The component holds React state (\<open>isRecording\<close>, \<open>audioBlob\<close>, \<open>answerText\<close>,
  \<open>recordingTime\<close>), three refs and the \<open>disabled\<close> prop. The host objects it creates
  live in a store beside them: the media recorders, the input streams (a stream is the list
  of its tracks, \<open>True\<close> while the track is live, that is while the microphone is held)
  and the interval timers (\<open>True\<close> until cleared). A ref to a recorder or a timer is an
  index into the store; the identifier of a timer is a positive number in the browser, so
  a stored one is truthy. \<open>pending_getUserMedia\<close> counts the invocations of
  \<^verbatim>\<open>startRecording\<close> that are suspended at \<^verbatim>\<open>await getUserMedia\<close>. \<open>mounted\<close>
  says whether the instance is still rendered by its parent; the component registers no
  effect and so no cleanup, and its host objects outlive it.
\<close>

datatype recorder_state = Inactive | Recording

record media_recorder =
  rec_state :: recorder_state
  rec_mimeType :: string
  rec_stream :: nat
  stop_queued :: bool

record capture =
  isRecording :: bool
  audioBlob :: "blob option"
  answerText :: string
  recordingTime :: nat
  mediaRecorderRef :: "nat option"
  chunksRef :: "blob list"
  timerRef :: "nat option"
  disabled :: bool
  mounted :: bool
  recorders :: "media_recorder list"
  streams :: "bool list list"
  intervals :: "bool list"
  pending_getUserMedia :: nat
  alerts :: "string list"

definition capture_init :: capture where
  "capture_init =
     \<lparr>isRecording = False, audioBlob = None, answerText = [], recordingTime = 0,
      mediaRecorderRef = None, chunksRef = [], timerRef = None, disabled = False,
      mounted = True,
      recorders = [], streams = [], intervals = [], pending_getUserMedia = 0, alerts = []\<rparr>"

text \<open>Line 174: the start control is rendered under this condition.\<close>

definition start_control_available :: "capture \<Rightarrow> bool" where
  "start_control_available c = (\<not> isRecording c \<and> audioBlob c = None)"

text \<open>Line 230: the submit button is disabled under this condition.\<close>

definition submit_disabled :: "capture \<Rightarrow> bool" where
  "submit_disabled c = (disabled c \<or> (trim (answerText c) = [] \<and> audioBlob c = None))"

text \<open>
  \<^verbatim>\<open>startRecording\<close>, lines 13--21: the call runs up to \<^verbatim>\<open>await getUserMedia\<close> and
  suspends there; no state is written before the host answers.
\<close>

definition startRecording_call :: "capture \<Rightarrow> capture" where
  "startRecording_call c = c\<lparr>pending_getUserMedia := pending_getUserMedia c + 1\<rparr>"

text \<open>
  The host's answer: a rejection with an error name (\<open>MediaError\<close>), or a stream with
  some audio tracks. With the stream in hand, lines 23--78 run inside the same \<^verbatim>\<open>try\<close>:
  they complete (\<open>MediaStream\<close>), or the set-up of the recorder throws an error with the
  given name before a recorder exists, at \<^verbatim>\<open>isTypeSupported\<close> or \<^verbatim>\<open>new MediaRecorder\<close>
  (\<open>RecorderUnavailable\<close>, lines 29--36), or \<^verbatim>\<open>start\<close> throws on the new recorder
  (\<open>StartRefused\<close>, line 72).
\<close>

datatype media_result =
    MediaStream nat
  | MediaError string
  | RecorderUnavailable nat string
  | StartRefused nat string

text \<open>Lines 24--34: the recording format.\<close>

definition choose_mimeType :: "host \<Rightarrow> string" where
  "choose_mimeType h =
     (if isTypeSupported h ''audio/webm;codecs=opus'' then ''audio/webm;codecs=opus''
      else if isTypeSupported h ''audio/wav'' then ''audio/wav''
      else [])"

text \<open>Lines 80--93: the message for a failed acquisition.\<close>

definition microphone_error :: "string \<Rightarrow> string" where
  "microphone_error nm =
     ''Failed to access microphone. '' @
     (if nm = ''NotAllowedError'' then ''Please allow microphone access and try again.''
      else if nm = ''NotFoundError'' then ''No microphone found. Please check your device.''
      else ''Please check permissions and try again.'')"

text \<open>
  \<^verbatim>\<open>startRecording\<close>, lines 23--93: the continuation after \<^verbatim>\<open>await\<close>. A new recorder on
  the new stream is stored in \<open>mediaRecorderRef\<close>, the chunk list is reset, the recorder
  is started and a new interval timer is stored in \<open>timerRef\<close>. Every error ends in the
  \<^verbatim>\<open>catch\<close> clause of lines 80--93, which raises an alert and does nothing else: a stream
  acquired before the error keeps its tracks.
\<close>

definition startRecording_resume :: "host \<Rightarrow> media_result \<Rightarrow> capture \<Rightarrow> capture" where
  "startRecording_resume h res c =
     (case res of
        MediaError nm \<Rightarrow>
          c\<lparr>pending_getUserMedia := pending_getUserMedia c - 1,
            alerts := alerts c @ [microphone_error nm]\<rparr>
      | MediaStream n \<Rightarrow>
          c\<lparr>pending_getUserMedia := pending_getUserMedia c - 1,
            streams := streams c @ [replicate n True],
            recorders := recorders c @
              [\<lparr>rec_state = Recording,
                rec_mimeType = str_or (choose_mimeType h) (default_mimeType h),
                rec_stream = length (streams c),
                stop_queued = False\<rparr>],
            mediaRecorderRef := Some (length (recorders c)),
            chunksRef := [],
            isRecording := True,
            intervals := intervals c @ [True],
            timerRef := Some (length (intervals c))\<rparr>
      | RecorderUnavailable n nm \<Rightarrow>
          c\<lparr>pending_getUserMedia := pending_getUserMedia c - 1,
            streams := streams c @ [replicate n True],
            alerts := alerts c @ [microphone_error nm]\<rparr>
      | StartRefused n nm \<Rightarrow>
          c\<lparr>pending_getUserMedia := pending_getUserMedia c - 1,
            streams := streams c @ [replicate n True],
            recorders := recorders c @
              [\<lparr>rec_state = Inactive,
                rec_mimeType = str_or (choose_mimeType h) (default_mimeType h),
                rec_stream = length (streams c),
                stop_queued = False\<rparr>],
            mediaRecorderRef := Some (length (recorders c)),
            chunksRef := [],
            alerts := alerts c @ [microphone_error nm]\<rparr>)"

text \<open>Lines 41--45: \<^verbatim>\<open>ondataavailable\<close>.\<close>

definition ondataavailable :: "blob \<Rightarrow> capture \<Rightarrow> capture" where
  "ondataavailable d c = (if blob_size d > 0 then c\<lparr>chunksRef := chunksRef c @ [d]\<rparr> else c)"

text \<open>\<^verbatim>\<open>stream.getTracks().forEach(track => track.stop())\<close>.\<close>

definition stop_tracks :: "nat \<Rightarrow> bool list list \<Rightarrow> bool list list" where
  "stop_tracks i ss = (if i < length ss then ss[i := map (\<lambda>t. False) (ss ! i)] else ss)"

text \<open>
  Lines 47--64: \<^verbatim>\<open>onstop\<close> of recorder \<open>r\<close>; the closure holds that recorder and its
  stream.
\<close>

definition onstop :: "nat \<Rightarrow> capture \<Rightarrow> capture" where
  "onstop r c =
     (let mr = recorders c ! r;
          c' = (if length (chunksRef c) > 0 then
                  c\<lparr>audioBlob :=
                      Some \<lparr>blob_size = sum_list (map blob_size (chunksRef c)),
                            blob_type = str_or (rec_mimeType mr) ''audio/wav''\<rparr>\<rparr>
                else c\<lparr>alerts := alerts c @ [''No audio data was recorded. Please try again.'']\<rparr>)
      in c'\<lparr>streams := stop_tracks (rec_stream mr) (streams c')\<rparr>)"

text \<open>Lines 66--70: \<^verbatim>\<open>onerror\<close>.\<close>

definition onerror :: "capture \<Rightarrow> capture" where
  "onerror c =
     c\<lparr>alerts := alerts c @ [''Recording error occurred. Please try again.''],
       isRecording := False\<rparr>"

text \<open>
  \<^verbatim>\<open>MediaRecorder.stop()\<close>: the recorder becomes inactive at once; the host fires the
  last \<^verbatim>\<open>dataavailable\<close> and then \<^verbatim>\<open>stop\<close> from a queued task.
\<close>

definition recorder_stop :: "nat \<Rightarrow> media_recorder list \<Rightarrow> media_recorder list" where
  "recorder_stop r rs = rs[r := (rs ! r)\<lparr>rec_state := Inactive, stop_queued := True\<rparr>]"

text \<open>Lines 96--106: \<^verbatim>\<open>stopRecording\<close>.\<close>

definition stopRecording :: "capture \<Rightarrow> capture" where
  "stopRecording c =
     (case mediaRecorderRef c of
        None \<Rightarrow> c
      | Some r \<Rightarrow>
          if rec_state (recorders c ! r) \<noteq> Inactive then
            (let c' = c\<lparr>recorders := recorder_stop r (recorders c), isRecording := False\<rparr>
             in case timerRef c' of
                  None \<Rightarrow> c'
                | Some t \<Rightarrow> c'\<lparr>intervals := (intervals c')[t := False], recordingTime := 0\<rparr>)
          else c)"

text \<open>Lines 157--160: \<^verbatim>\<open>clearRecording\<close>.\<close>

definition clearRecording :: "capture \<Rightarrow> capture" where
  "clearRecording c = c\<lparr>audioBlob := None\<rparr>"

text \<open>Lines 118--141: the recorded audio wrapped as a named file.\<close>

definition wrap_audio :: "host \<Rightarrow> blob \<Rightarrow> js_error + js_file" where
  "wrap_audio h b =
     (let mimeType = str_or (blob_type b) ''audio/wav'';
          extension = (if str_includes mimeType ''webm'' then ''webm'' else ''wav'')
      in new_File h b (''answer.'' @ extension) mimeType)"

text \<open>
  Lines 108--155: \<^verbatim>\<open>handleSubmit\<close>. The callback \<open>onSubmit\<close> acts on the state \<open>p\<close> of
  the parent and returns the outcome of its promise.
\<close>

definition hasText :: "capture \<Rightarrow> bool" where
  "hasText c = (answerText c \<noteq> [] \<and> length (trim (answerText c)) > 0)"

definition hasAudio :: "capture \<Rightarrow> bool" where
  "hasAudio c = (case audioBlob c of None \<Rightarrow> False | Some b \<Rightarrow> blob_size b > 0)"

definition handleSubmit ::
  "host \<Rightarrow> (string \<Rightarrow> js_file option \<Rightarrow> 'p \<Rightarrow> (js_error + unit) \<times> 'p) \<Rightarrow> capture \<times> 'p
     \<Rightarrow> capture \<times> 'p" where
  "handleSubmit h onSubmit cp =
     (case cp of (c, p) \<Rightarrow>
        if \<not> hasText c \<and> \<not> hasAudio c then
          (c\<lparr>alerts := alerts c @
               [''Please provide an answer by typing text or recording audio.'']\<rparr>, p)
        else
          (case (case audioBlob c of
                   None \<Rightarrow> Inr None
                 | Some b \<Rightarrow>
                     if hasAudio c then
                       (case wrap_audio h b of Inl e \<Rightarrow> Inl e | Inr f \<Rightarrow> Inr (Some f))
                     else Inr None) of
             Inl e \<Rightarrow>
               (c\<lparr>alerts := alerts c @
                    [''Error processing audio. Please try recording again.'']\<rparr>, p)
           | Inr audioFile \<Rightarrow>
               (case onSubmit (str_or (trim (answerText c)) []) audioFile p of
                  (Inr u, p') \<Rightarrow> (c\<lparr>answerText := [], audioBlob := None\<rparr>, p')
                | (Inl e, p') \<Rightarrow> (c, p'))))"

subsection \<open>The component under the events of the browser\<close>

text \<open>
  User events are enabled when the control they come from is rendered and not disabled.
  Host events follow the MediaStream Recording specification: \<^verbatim>\<open>dataavailable\<close> is fired
  on a recorder that is recording or whose stop is queued; a recorder that fails while
  recording is inactivated, its \<^verbatim>\<open>error\<close> event is fired, and its \<^verbatim>\<open>stop\<close> event is
  queued like after \<^verbatim>\<open>stop()\<close>. An event that is not enabled leaves the state as it is.
  A submission is seen from the component's side, as a callback that resolves or rejects.

  The events follow one instance of the component. Its parent unmounts it (\<open>Unmount\<close>)
  whenever it renders another view: \<^verbatim>\<open>Interview.js\<close> returns the loading view (lines
  120--128, after line 24 of an accepted submission), the error view or the feedback view
  without the component, and the Home button (line 201, \<^verbatim>\<open>App.js\<close> lines 18--21) removes
  the whole flow. After the unmount no control of the instance is rendered, so no user event
  is enabled. The handlers the instance has registered with the host still run: they write
  the refs, raise alerts and stop tracks as before, but React ignores the state setters of
  an unmounted component (\<open>setters_ignored\<close>). A component mounted later is a new
  instance: it starts from \<open>capture_init\<close> with refs of its own and cannot reach the
  recorders of an earlier one.
\<close>

definition setters_ignored :: "capture \<Rightarrow> capture \<Rightarrow> capture" where
  "setters_ignored c c' =
     (if mounted c then c'
      else c'\<lparr>isRecording := isRecording c, audioBlob := audioBlob c,
             answerText := answerText c, recordingTime := recordingTime c\<rparr>)"

datatype event =
    ClickStart
  | MediaResult media_result
  | DataAvailable nat blob
  | ClickStop
  | StopEvent nat
  | ErrorEvent nat
  | Tick nat
  | ClickClear
  | TypeText string
  | SetDisabled bool
  | ClickSubmit "js_error + unit"
  | Unmount

definition step :: "host \<Rightarrow> event \<Rightarrow> capture \<Rightarrow> capture" where
  "step h ev c =
     (case ev of
        ClickStart \<Rightarrow>
          if mounted c \<and> start_control_available c \<and> \<not> disabled c
          then startRecording_call c else c
      | MediaResult res \<Rightarrow>
          if pending_getUserMedia c > 0
          then setters_ignored c (startRecording_resume h res c) else c
      | DataAvailable r d \<Rightarrow>
          if r < length (recorders c) \<and>
             (rec_state (recorders c ! r) = Recording \<or> stop_queued (recorders c ! r))
          then ondataavailable d c else c
      | ClickStop \<Rightarrow> if mounted c \<and> isRecording c then stopRecording c else c
      | StopEvent r \<Rightarrow>
          if r < length (recorders c) \<and> stop_queued (recorders c ! r)
          then setters_ignored c
                 (onstop r (c\<lparr>recorders :=
                               (recorders c)[r := (recorders c ! r)\<lparr>stop_queued := False\<rparr>]\<rparr>))
          else c
      | ErrorEvent r \<Rightarrow>
          if r < length (recorders c) \<and> rec_state (recorders c ! r) = Recording
          then setters_ignored c (onerror (c\<lparr>recorders := recorder_stop r (recorders c)\<rparr>))
          else c
      | Tick t \<Rightarrow>
          if t < length (intervals c) \<and> intervals c ! t
          then setters_ignored c (c\<lparr>recordingTime := recordingTime c + 1\<rparr>) else c
      | ClickClear \<Rightarrow> if mounted c \<and> audioBlob c \<noteq> None then clearRecording c else c
      | TypeText v \<Rightarrow> if mounted c \<and> \<not> disabled c then c\<lparr>answerText := v\<rparr> else c
      | SetDisabled b \<Rightarrow> if mounted c then c\<lparr>disabled := b\<rparr> else c
      | ClickSubmit outcome \<Rightarrow>
          if mounted c \<and> \<not> submit_disabled c
          then fst (handleSubmit h (\<lambda>t f p. (outcome, p)) (c, ()))
          else c
      | Unmount \<Rightarrow> c\<lparr>mounted := False\<rparr>)"

definition run :: "host \<Rightarrow> event list \<Rightarrow> capture \<Rightarrow> capture" where
  "run h evs c = foldl (\<lambda>c ev. step h ev c) c evs"

text \<open>The recordings in progress, and whether the microphone of a recorder is released.\<close>

definition active_recordings :: "capture \<Rightarrow> nat" where
  "active_recordings c = length (filter (\<lambda>mr. rec_state mr = Recording) (recorders c))"

definition released :: "capture \<Rightarrow> nat \<Rightarrow> bool" where
  "released c r = list_all (\<lambda>t. \<not> t) (streams c ! rec_stream (recorders c ! r))"

section \<open>Answer Capture inside Interview Flow\<close>

text \<open>
  Line 220 of \<^verbatim>\<open>Interview.js\<close> passes \<^verbatim>\<open>submitAnswer\<close> as \<^verbatim>\<open>onSubmit\<close>. The parent
  state is the state of the flow with the log of its effects. (While \<open>loading\<close> or an
  error or feedback is shown, the flow renders without the capture component, and mounts a
  new one, with the initial empty form, when it renders the active view again.)
\<close>

definition interview_onSubmit ::
  "host \<Rightarrow> (form \<Rightarrow> fetch_outcome) \<Rightarrow> string \<Rightarrow> js_file option \<Rightarrow> interview \<times> effect list
     \<Rightarrow> (js_error + unit) \<times> interview \<times> effect list" where
  "interview_onSubmit h net txt audioFile p =
     (case p of (s, log) \<Rightarrow>
        (case submitAnswer h net s txt audioFile of
           (res, s', effs) \<Rightarrow> (res, s', log @ effs)))"

text \<open>
  Lines 120--220 of \<^verbatim>\<open>Interview.js\<close>: only the active view contains the capture
  component.
\<close>

definition renders_capture :: "interview \<Rightarrow> bool" where
  "renders_capture s = (view s = Active)"

text \<open>A callback that only records the arguments of each invocation.\<close>

definition recording_callback ::
  "string \<Rightarrow> js_file option \<Rightarrow> (string \<times> js_file option) list
     \<Rightarrow> (js_error + unit) \<times> (string \<times> js_file option) list" where
  "recording_callback txt audioFile calls = (Inr (), calls @ [(txt, audioFile)])"

section \<open>Session Shell (\<^verbatim>\<open>App.js\<close>)\<close>

datatype view_name = Home | InterviewView | ReportView

record app =
  currentView :: view_name
  app_sessionData :: jsval

record interview_setup =
  name :: string
  experience :: string
  setup_loading :: bool

datatype app_effect = AppAlert string | StartRequest string string

definition startInterview :: "jsval \<Rightarrow> app \<Rightarrow> app" where
  "startInterview d a = a\<lparr>app_sessionData := d, currentView := InterviewView\<rparr>"

definition showReport :: "app \<Rightarrow> app" where
  "showReport a = a\<lparr>currentView := ReportView\<rparr>"

definition goHome :: "app \<Rightarrow> app" where
  "goHome a = a\<lparr>currentView := Home, app_sessionData := JNull\<rparr>"

text \<open>Line 110: the start button is disabled under this condition.\<close>

definition start_disabled :: "interview_setup \<Rightarrow> bool" where
  "start_disabled st = (setup_loading st \<or> trim (name st) = [])"

text \<open>
  Lines 59--85: \<^verbatim>\<open>handleStart\<close>. \<open>net\<close> answers the session-creation request for a
  name and an experience level.
\<close>

definition handleStart ::
  "host \<Rightarrow> (string \<Rightarrow> string \<Rightarrow> fetch_outcome) \<Rightarrow> app \<times> interview_setup
     \<Rightarrow> (app \<times> interview_setup) \<times> app_effect list" where
  "handleStart h net ast =
     (case ast of (a, st) \<Rightarrow>
        if trim (name st) = [] then ((a, st), [AppAlert ''Please enter your name''])
        else
          (let request = StartRequest (name st) (experience st);
               failed = ((a, st\<lparr>setup_loading := False\<rparr>),
                         [request,
                          AppAlert ''Failed to start interview. Please check if the backend is running.''])
           in case net (name st) (experience st) of
                Rejected m \<Rightarrow> failed
              | Responded r \<Rightarrow>
                  if \<not> ok r then failed
                  else (case fst (response_json h r False) of
                          Inl e \<Rightarrow> failed
                        | Inr d \<Rightarrow>
                            ((startInterview d a, st\<lparr>setup_loading := False\<rparr>), [request]))))"

definition is_request :: "app_effect \<Rightarrow> bool" where
  "is_request e = (case e of StartRequest n x \<Rightarrow> True | AppAlert m \<Rightarrow> False)"

section \<open>Concrete inputs\<close>

text \<open>
  A host with the error messages of one browser, and a host whose \<^verbatim>\<open>File\<close> constructor
  throws; a session as the backend creates it; the responses used in the examples.
\<close>

definition demo_host :: host where
  "demo_host =
     \<lparr>json_syntax_msg = ''JSON.parse: unexpected character at line 1 column 1 of the JSON data'',
      body_used_msg = ''Response.text: Body has already been consumed.'',
      null_prop_msg = ''null has no properties'',
      file_ctor_throws = False,
      isTypeSupported = (\<lambda>m. m = ''audio/webm;codecs=opus''),
      default_mimeType = ''audio/ogg''\<rparr>"

definition legacy_host :: host where
  "legacy_host = demo_host\<lparr>file_ctor_throws := True\<rparr>"

definition demo_session :: jsval where
  "demo_session =
     JObj [(''session_id'', JStr ''s-1''),
           (''question'', JObj [(''id'', JNum 1),
                                (''text'', JStr ''What does VLOOKUP do?''),
                                (''category'', JStr ''lookup'')])]"

definition demo_interview :: interview where
  "demo_interview = on_mount (interview_init demo_session)"

definition bad_audio_response :: response where
  \<open>bad_audio_response =
     \<lparr>status = 400, body_null = False,
      body_text = ''{"detail": "bad audio format"}'',
      body_json = Some (JObj [(''detail'', JStr ''bad audio format'')])\<rparr>\<close>

definition plain_500_response :: response where
  "plain_500_response =
     \<lparr>status = 500, body_null = False,
      body_text = ''Internal Server Error'',
      body_json = None\<rparr>"

definition next_question_body :: jsval where
  "next_question_body =
     JObj [(''evaluation'', JObj [(''score'', JNum 4), (''feedback'', JStr ''Good'')]),
           (''interview_complete'', JBool False),
           (''next_question'', JObj [(''id'', JNum 2),
                                     (''text'', JStr ''What is a pivot table?''),
                                     (''category'', JStr ''analysis'')])]"

definition success_response :: response where
  "success_response =
     \<lparr>status = 200, body_null = False, body_text = [], body_json = Some next_question_body\<rparr>"

definition demo_blob :: blob where
  "demo_blob = \<lparr>blob_size = 3, blob_type = ''audio/webm;codecs=opus''\<rparr>"

definition demo_capture :: capture where
  "demo_capture = capture_init\<lparr>answerText := ''=SUM(A1:A5)'', audioBlob := Some demo_blob\<rparr>"

definition is_alert :: "effect \<Rightarrow> bool" where
  "is_alert e = (case e of Alert m \<Rightarrow> True | Fetch f \<Rightarrow> False | SetTimeout v n \<Rightarrow> False | OnComplete \<Rightarrow> False)"

definition is_timer :: "effect \<Rightarrow> bool" where
  "is_timer e = (case e of SetTimeout v n \<Rightarrow> True | Alert m \<Rightarrow> False | Fetch f \<Rightarrow> False | OnComplete \<Rightarrow> False)"

definition completions :: "effect list \<Rightarrow> nat" where
  "completions effs = length (filter (\<lambda>e. e = OnComplete) effs)"

definition demo_file :: js_file where
  "demo_file = \<lparr>file_name = ''answer.webm'', file_size = 3, file_type = ''audio/webm;codecs=opus''\<rparr>"

definition audio_only_form :: form where
  "audio_only_form =
     [(''session_id'', FText ''s-1''), (''question_id'', FText ''1''),
      (''answer_text'', FText []), (''audio_file'', FFile demo_file)]"

definition complete_body :: jsval where
  "complete_body =
     JObj [(''evaluation'', JObj [(''score'', JNum 5), (''feedback'', JStr ''Excellent'')]),
           (''interview_complete'', JBool True)]"

definition complete_response :: response where
  "complete_response =
     \<lparr>status = 200, body_null = False, body_text = [], body_json = Some complete_body\<rparr>"

definition no_evaluation_response :: response where
  "no_evaluation_response =
     \<lparr>status = 200, body_null = False, body_text = [],
      body_json = Some (JObj [(''next_question'', JObj [(''id'', JNum 2)])])\<rparr>"

text \<open>
  Every chunk kept and every audio object held has a positive size: \<^verbatim>\<open>ondataavailable\<close>
  drops empty chunks and \<^verbatim>\<open>onstop\<close> builds an audio object only from a non-empty chunk
  list.
\<close>

definition blob_inv :: "capture \<Rightarrow> bool" where
  "blob_inv c =
     (list_all (\<lambda>d. 0 < blob_size d) (chunksRef c) \<and>
      (case audioBlob c of None \<Rightarrow> True | Some b \<Rightarrow> 0 < blob_size b))"

definition record_audio :: "event list" where
  "record_audio =
     [TypeText ''  '', ClickStart, MediaResult (MediaStream 1), DataAvailable 0 demo_blob,
      ClickStop, StopEvent 0]"

definition double_start :: "event list" where
  "double_start =
     [ClickStart, ClickStart, MediaResult (MediaStream 1), MediaResult (MediaStream 1)]"

text \<open>
  A recording is started and an answer is typed; the answer is submitted and the parent
  unmounts the component. A recording is started and the Home button unmounts the
  component. The microphone is acquired and the recorder cannot be constructed.
\<close>

definition typed_while_recording :: "event list" where
  "typed_while_recording =
     [ClickStart, MediaResult (MediaStream 1), TypeText ''=SUM(A1:A5)'']"

definition submit_while_recording :: "event list" where
  "submit_while_recording = typed_while_recording @ [ClickSubmit (Inr ()), Unmount]"

definition home_while_recording :: "event list" where
  "home_while_recording = [ClickStart, MediaResult (MediaStream 1), Unmount]"

definition recorder_setup_fails :: "event list" where
  "recorder_setup_fails =
     [ClickStart, MediaResult (RecorderUnavailable 1 ''NotSupportedError'')]"

section \<open>Properties of Interview Flow\<close>

lemma truthy_not_nullish: "truthy v \<Longrightarrow> \<not> nullish v"
  by (cases v) (simp_all add: nullish_def)

lemma js_prop_nullish: "nullish v \<Longrightarrow> js_prop v k = JUndefined"
  by (cases v) (simp_all add: nullish_def)

lemma build_form_Inr:
  assumes "\<not> nullish (sessionData s)" and "\<not> nullish (currentQuestion s)"
  shows "build_form h s txt a =
           Inr ([(''session_id'', FText (to_string (js_prop (sessionData s) ''session_id''))),
                 (''question_id'', FText (to_string (js_prop (currentQuestion s) ''id''))),
                 (''answer_text'', FText txt)]
                @ (case a of None \<Rightarrow> [] | Some f \<Rightarrow> [(''audio_file'', FFile f)]))"
  using assms by (simp add: build_form_def get_prop_def str_or_def)

lemma build_form_answer_text:
  assumes "build_form h s txt a = Inr f"
  shows "map_of f ''answer_text'' = Some (FText txt) \<and>
         length (filter (\<lambda>kv. fst kv = ''answer_text'') f) = 1"
  using assms
  by (auto simp: build_form_def get_prop_def str_or_def split: if_splits option.splits)

lemma submit_try_fetch:
  assumes "Fetch f \<in> set (snd (snd (submit_try h net s txt a)))"
  shows "build_form h s txt a = Inr f"
  using assms
  by (auto simp: submit_try_def split: sum.splits fetch_outcome.splits if_splits)

lemma build_form_frame:
  "build_form h (s\<lparr>loading := l, error := e\<rparr>) txt a = build_form h s txt a"
  by (simp add: build_form_def cong: sum.case_cong)

lemma submitAnswer_fetch:
  assumes "Fetch f \<in> set (snd (snd (submitAnswer h net s txt a)))"
  shows "build_form h s txt a = Inr f"
proof (cases "truthy (currentQuestion s)")
  case False
  with assms show ?thesis by (simp add: submitAnswer_def)
next
  case True
  let ?s = "s\<lparr>loading := True, error := JNull\<rparr>"
  obtain res s' effs where t: "submit_try h net ?s txt a = (res, s', effs)"
    by (cases "submit_try h net ?s txt a") auto
  from assms True t have "Fetch f \<in> set effs"
    by (cases res) (auto simp: submitAnswer_def split: if_splits)
  with t have "Fetch f \<in> set (snd (snd (submit_try h net ?s txt a)))" by simp
  then have "build_form h ?s txt a = Inr f" by (rule submit_try_fetch)
  then show ?thesis by (simp add: build_form_frame)
qed

text \<open>
  The async function \<^verbatim>\<open>submitAnswer\<close> never rejects: whatever the network answers, its
  promise resolves.
\<close>

lemma submitAnswer_resolves: "fst (submitAnswer h net s txt a) = Inr ()"
  by (simp add: submitAnswer_def split: prod.splits sum.splits)

lemmas interview_defs =
  submitAnswer_def submit_try_def build_form_def get_prop_def nullish_def error_message_def
  text_fallback_def response_json_def response_text_def ok_def str_or_def js_or_def view_def

lemmas demo_defs =
  demo_host_def demo_interview_def on_mount_def interview_init_def demo_session_def
  show_int_def digit_def

text \<open>
  Claim C3. Every submission request that Interview Flow issues carries the field
  \<^verbatim>\<open>answer_text\<close>, exactly once, with the text handed to \<^verbatim>\<open>submitAnswer\<close>; for an
  answer given as audio only that text is the empty string, and the field is still there.
\<close>

theorem answer_text_always_present:
  assumes "Fetch formData \<in> set (snd (snd (submitAnswer h net s txt audioFile)))"
  shows "map_of formData ''answer_text'' = Some (FText txt) \<and>
         length (filter (\<lambda>kv. fst kv = ''answer_text'') formData) = 1"
  using submitAnswer_fetch [OF assms] by (rule build_form_answer_text)

theorem answer_text_always_present_witness:
  "Fetch audio_only_form \<in>
     set (snd (snd (submitAnswer demo_host (\<lambda>f. Responded success_response) demo_interview
                      [] (Some demo_file)))) \<and>
   map_of audio_only_form ''answer_text'' = Some (FText []) \<and>
   length (filter (\<lambda>kv. fst kv = ''answer_text'') audio_only_form) = 1"
proof -
  have sent: "Fetch audio_only_form \<in>
     set (snd (snd (submitAnswer demo_host (\<lambda>f. Responded success_response) demo_interview
                      [] (Some demo_file))))"
    by (simp add: interview_defs demo_defs success_response_def next_question_body_def
        audio_only_form_def)
  show ?thesis
    using sent answer_text_always_present [OF sent] by simp
qed

text \<open>
  Seen from Answer Capture: every request caused by the submit action carries the trimmed
  text of the form as \<^verbatim>\<open>answer_text\<close>.
\<close>

lemma str_or_Nil: "str_or x [] = x"
  by (simp add: str_or_def)

lemma capture_submission_answer_text:
  assumes "Fetch formData \<in> set (snd (snd (handleSubmit h (interview_onSubmit h net) (c, s, []))))"
  shows "map_of formData ''answer_text'' = Some (FText (trim (answerText c)))"
proof -
  have key: "\<exists>a. build_form h s (trim (answerText c)) a = Inr formData"
    if "submitAnswer h net s (str_or (trim (answerText c)) []) a = (res, s', effs)"
      and "Fetch formData \<in> set effs" for a res s' effs
  proof -
    from that have "Fetch formData \<in>
        set (snd (snd (submitAnswer h net s (str_or (trim (answerText c)) []) a)))" by simp
    from submitAnswer_fetch [OF this] show ?thesis by (auto simp: str_or_Nil)
  qed
  have "\<exists>a. build_form h s (trim (answerText c)) a = Inr formData"
    using assms
    by (auto simp: handleSubmit_def interview_onSubmit_def
        split: if_splits option.splits sum.splits prod.splits
        intro: key)
  then show ?thesis using build_form_answer_text by blast
qed

lemma submit_try_ok:
  assumes "\<not> nullish (sessionData s)" and "\<not> nullish (currentQuestion s)"
    and "ok r" and "\<not> body_null r" and "body_json r = Some v"
  shows "\<exists>f. submit_try h (\<lambda>_. Responded r) s txt a =
           (if truthy (js_prop v ''evaluation'')
            then (Inr (), s\<lparr>feedback := js_prop v ''evaluation'', showFeedback := True\<rparr>,
                  [Fetch f, SetTimeout v 3000])
            else (Inl (JsError (if nullish v then null_prop_msg h
                                else ''Invalid response format - missing evaluation'')),
                  s, [Fetch f]))"
  using assms
  by (simp add: submit_try_def build_form_Inr response_json_def get_prop_def js_prop_nullish)

lemma submitAnswer_evaluated:
  assumes q: "truthy (currentQuestion s)" and sd: "\<not> nullish (sessionData s)"
    and r: "ok r" "\<not> body_null r" "body_json r = Some v"
    and ev: "truthy (js_prop v ''evaluation'')"
  shows "\<exists>f. submitAnswer h (\<lambda>_. Responded r) s txt a =
           (Inr (),
            s\<lparr>loading := False, error := JNull,
              feedback := js_prop v ''evaluation'', showFeedback := True\<rparr>,
            [Fetch f, SetTimeout v 3000])"
proof -
  let ?s = "s\<lparr>loading := True, error := JNull\<rparr>"
  have "\<not> nullish (sessionData ?s)" "\<not> nullish (currentQuestion ?s)"
    using q sd by (simp_all add: truthy_not_nullish)
  from submit_try_ok [OF this r, of h "txt" a] ev
  obtain f where "submit_try h (\<lambda>_. Responded r) ?s txt a =
            (Inr (), ?s\<lparr>feedback := js_prop v ''evaluation'', showFeedback := True\<rparr>,
                  [Fetch f, SetTimeout v 3000])" by auto
  then show ?thesis using q
    by (intro exI [of _ f]) (simp add: submitAnswer_def)
qed

lemma submitAnswer_not_evaluated:
  assumes q: "truthy (currentQuestion s)" and sd: "\<not> nullish (sessionData s)"
    and r: "ok r" "\<not> body_null r" "body_json r = Some v"
    and ev: "\<not> truthy (js_prop v ''evaluation'')"
  shows "\<exists>f. submitAnswer h (\<lambda>_. Responded r) s txt a =
           (Inr (),
            s\<lparr>loading := False,
              error := JStr (str_or (missing_evaluation_msg h v) ''Network error occurred'')\<rparr>,
            [Fetch f] @
            (if \<not> str_includes (missing_evaluation_msg h v) ''Server error''
             then [Alert ''Failed to submit answer. Please check your connection and try again.'']
             else []))"
proof -
  let ?s = "s\<lparr>loading := True, error := JNull\<rparr>"
  have "\<not> nullish (sessionData ?s)" "\<not> nullish (currentQuestion ?s)"
    using q sd by (simp_all add: truthy_not_nullish)
  from submit_try_ok [OF this r, of h "txt" a] ev
  obtain f where "submit_try h (\<lambda>_. Responded r) ?s txt a =
            (Inl (JsError (missing_evaluation_msg h v)), ?s, [Fetch f])"
    by (auto simp: missing_evaluation_msg_def)
  then show ?thesis using q
    by (intro exI [of _ f]) (simp add: submitAnswer_def)
qed

text \<open>
  Claim C7. A submission was issued (a current question and session data exist) and the
  response is 2xx with a parsed body \<open>v\<close>. If \<open>v\<close> has no evaluation -- the property is
  absent or falsy, which is how line 82 tests it, or \<open>v\<close> is \<^verbatim>\<open>null\<close> -- the flow ends in
  the error view with the message of the thrown error; if the evaluation is there, the flow
  ends in the feedback view showing that evaluation.
\<close>

theorem missing_evaluation_is_error:
  assumes "truthy (currentQuestion s)" and "\<not> nullish (sessionData s)"
    and "ok r" and "\<not> body_null r" and "body_json r = Some v"
    and run: "submitAnswer h (\<lambda>_. Responded r) s txt audioFile = (res, s', effs)"
  shows "view s' = (if truthy (js_prop v ''evaluation'') then FeedbackShown else Errored) \<and>
         (if truthy (js_prop v ''evaluation'') then feedback s' = js_prop v ''evaluation''
          else error s' = JStr (str_or (missing_evaluation_msg h v) ''Network error occurred''))"
proof (cases "truthy (js_prop v ''evaluation'')")
  case True
  from submitAnswer_evaluated [OF assms(1-5) True, of h "txt" audioFile] run
  have "s' = s\<lparr>loading := False, error := JNull,
              feedback := js_prop v ''evaluation'', showFeedback := True\<rparr>" by auto
  then show ?thesis using True by (simp add: view_def)
next
  case False
  from submitAnswer_not_evaluated [OF assms(1-5) False, of h "txt" audioFile] run
  have "s' = s\<lparr>loading := False,
              error := JStr (str_or (missing_evaluation_msg h v) ''Network error occurred'')\<rparr>"
    by auto
  then show ?thesis using False by (simp add: view_def str_or_def)
qed

theorem missing_evaluation_is_error_witness:
  "truthy (currentQuestion demo_interview) \<and>
   \<not> nullish (sessionData demo_interview) \<and>
   ok no_evaluation_response \<and>
   \<not> body_null no_evaluation_response \<and>
   body_json no_evaluation_response = Some (JObj [(''next_question'', JObj [(''id'', JNum 2)])]) \<and>
   view (fst (snd (submitAnswer demo_host (\<lambda>f. Responded no_evaluation_response)
                     demo_interview ''=SUM(A1:A5)'' None))) = Errored \<and>
   error (fst (snd (submitAnswer demo_host (\<lambda>f. Responded no_evaluation_response)
                      demo_interview ''=SUM(A1:A5)'' None)))
     = JStr ''Invalid response format - missing evaluation''"
proof -
  have h1: "truthy (currentQuestion demo_interview)"
    and h2: "\<not> nullish (sessionData demo_interview)"
    by (simp_all add: demo_defs nullish_def)
  have h3: "ok no_evaluation_response" and h4: "\<not> body_null no_evaluation_response"
    and h5: "body_json no_evaluation_response
               = Some (JObj [(''next_question'', JObj [(''id'', JNum 2)])])"
    by (simp_all add: no_evaluation_response_def ok_def)
  obtain res s' effs where
    run: "submitAnswer demo_host (\<lambda>f. Responded no_evaluation_response)
            demo_interview ''=SUM(A1:A5)'' None = (res, s', effs)"
    by (cases "submitAnswer demo_host (\<lambda>f. Responded no_evaluation_response)
                 demo_interview ''=SUM(A1:A5)'' None") auto
  from missing_evaluation_is_error [OF h1 h2 h3 h4 h5 run]
  have "view s' = Errored \<and> error s' = JStr ''Invalid response format - missing evaluation''"
    by (simp add: missing_evaluation_msg_def nullish_def str_or_def)
  with run h1 h2 h3 h4 h5 show ?thesis by simp
qed

text \<open>
  Claim C2. After a successful submission (2xx, parsed body \<open>v\<close> with an evaluation) exactly
  one timer is armed, with \<open>v\<close> and 3000 ms. When it fires, one of three cases applies, chosen
  by the truthiness of \<^verbatim>\<open>interview_complete\<close> and then of \<^verbatim>\<open>next_question\<close>:
  completion is signalled once and nothing else changes; or the next question becomes
  current, the counter grows by one and the flow is active again, with no completion; or
  the flow shows the error ``Unexpected response from server'', question and counter
  unchanged, with no completion. The three outcomes differ pairwise in the number of
  completions or in the counter, so no two of them hold together.
\<close>

theorem successful_response_after_dwell:
  assumes "truthy (currentQuestion s)" and "\<not> nullish (sessionData s)"
    and "ok r" and "\<not> body_null r" and "body_json r = Some v"
    and ev: "truthy (js_prop v ''evaluation'')"
    and run: "submitAnswer h (\<lambda>_. Responded r) s txt audioFile = (res, s1, effs)"
    and dwell: "dwell_callback v s1 = (s2, effs2)"
  shows "filter is_timer effs = [SetTimeout v 3000] \<and>
         (if truthy (js_prop v ''interview_complete'') then
            completions effs2 = 1 \<and> s2 = s1
          else if truthy (js_prop v ''next_question'') then
            completions effs2 = 0 \<and>
            currentQuestion s2 = js_prop v ''next_question'' \<and>
            questionNumber s2 = questionNumber s + 1 \<and>
            view s2 = Active
          else
            completions effs2 = 0 \<and>
            currentQuestion s2 = currentQuestion s \<and>
            questionNumber s2 = questionNumber s \<and>
            error s2 = JStr ''Unexpected response from server'' \<and>
            view s2 = Errored)"
proof -
  from submitAnswer_evaluated [OF assms(1-5) ev, of h "txt" audioFile] run
  obtain f where s1: "s1 = s\<lparr>loading := False, error := JNull,
              feedback := js_prop v ''evaluation'', showFeedback := True\<rparr>"
    and effs: "effs = [Fetch f, SetTimeout v 3000]" by auto
  have timer: "filter is_timer effs = [SetTimeout v 3000]"
    by (simp add: effs is_timer_def)
  have after: "(if truthy (js_prop v ''interview_complete'') then
            completions effs2 = 1 \<and> s2 = s1
          else if truthy (js_prop v ''next_question'') then
            completions effs2 = 0 \<and>
            currentQuestion s2 = js_prop v ''next_question'' \<and>
            questionNumber s2 = questionNumber s + 1 \<and>
            view s2 = Active
          else
            completions effs2 = 0 \<and>
            currentQuestion s2 = currentQuestion s \<and>
            questionNumber s2 = questionNumber s \<and>
            error s2 = JStr ''Unexpected response from server'' \<and>
            view s2 = Errored)"
    using dwell by (auto simp: s1 dwell_callback_def completions_def view_def split: if_splits)
  from timer after show ?thesis by simp
qed

theorem successful_response_after_dwell_witness:
  "truthy (currentQuestion demo_interview) \<and>
   \<not> nullish (sessionData demo_interview) \<and>
   ok success_response \<and>
   \<not> body_null success_response \<and>
   body_json success_response = Some next_question_body \<and>
   truthy (js_prop next_question_body ''evaluation'') \<and>
   questionNumber demo_interview = 1 \<and>
   questionNumber (fst (dwell_callback next_question_body
     (fst (snd (submitAnswer demo_host (\<lambda>f. Responded success_response)
                  demo_interview ''=SUM(A1:A5)'' None))))) = 2 \<and>
   view (fst (dwell_callback next_question_body
     (fst (snd (submitAnswer demo_host (\<lambda>f. Responded success_response)
                  demo_interview ''=SUM(A1:A5)'' None))))) = Active"
proof -
  have h1: "truthy (currentQuestion demo_interview)"
    and h2: "\<not> nullish (sessionData demo_interview)"
    and n1: "questionNumber demo_interview = 1"
    by (simp_all add: demo_defs nullish_def)
  have h3: "ok success_response" and h4: "\<not> body_null success_response"
    and h5: "body_json success_response = Some next_question_body"
    by (simp_all add: success_response_def ok_def)
  have h6: "truthy (js_prop next_question_body ''evaluation'')"
    and c1: "\<not> truthy (js_prop next_question_body ''interview_complete'')"
    and c2: "truthy (js_prop next_question_body ''next_question'')"
    by (simp_all add: next_question_body_def)
  obtain res s1 effs where
    run: "submitAnswer demo_host (\<lambda>f. Responded success_response)
            demo_interview ''=SUM(A1:A5)'' None = (res, s1, effs)"
    by (cases "submitAnswer demo_host (\<lambda>f. Responded success_response)
                 demo_interview ''=SUM(A1:A5)'' None") auto
  obtain s2 effs2 where dwell: "dwell_callback next_question_body s1 = (s2, effs2)"
    by (cases "dwell_callback next_question_body s1") auto
  from successful_response_after_dwell [OF h1 h2 h3 h4 h5 h6 run dwell] c1 c2 n1
  have "questionNumber s2 = 2 \<and> view s2 = Active" by simp
  with run dwell h1 h2 h3 h4 h5 h6 n1 show ?thesis by simp
qed

text \<open>A response that completes the interview: the callback only signals completion.\<close>

lemma completion_example:
  "dwell_callback complete_body s = (s, [OnComplete]) \<and>
   body_json complete_response = Some complete_body \<and>
   currentView (showReport a) = ReportView"
  by (simp add: dwell_callback_def complete_body_def complete_response_def showReport_def)

subsection \<open>Failed submissions\<close>

lemma error_message_unreadable:
  assumes "\<not> body_null r" and "body_json r = None \<or> (\<exists>v. body_json r = Some v \<and> nullish v)"
  shows "error_message h r = Inl (JsError (body_used_msg h))"
  using assms
  by (auto simp: error_message_def text_fallback_def response_json_def response_text_def
      get_prop_def)

lemma error_message_json:
  assumes "\<not> body_null r" and "body_json r = Some v" and "\<not> nullish v"
  shows "error_message h r =
           Inr (js_or (js_prop v ''detail'')
                 (js_or (js_prop v ''error'') (JStr ''Failed to submit answer'')))"
  using assms by (simp add: error_message_def response_json_def get_prop_def)

lemma submitAnswer_not_ok:
  assumes q: "truthy (currentQuestion s)" and sd: "\<not> nullish (sessionData s)"
    and r: "\<not> ok r"
  shows "\<exists>f. submitAnswer h (\<lambda>_. Responded r) s txt a =
           (case error_message h r of
              Inl e \<Rightarrow>
                (Inr (),
                 s\<lparr>loading := False,
                   error := JStr (str_or (message e) ''Network error occurred'')\<rparr>,
                 [Fetch f] @
                 (if \<not> str_includes (message e) ''Server error''
                  then [Alert ''Failed to submit answer. Please check your connection and try again.'']
                  else []))
            | Inr m \<Rightarrow>
                (Inr (),
                 s\<lparr>loading := False,
                   error := JStr (str_or (to_string m) ''Network error occurred'')\<rparr>,
                 [Fetch f, Alert (''Error: '' @ to_string m)] @
                 (if \<not> str_includes (to_string m) ''Server error''
                  then [Alert ''Failed to submit answer. Please check your connection and try again.'']
                  else [])))"
proof -
  let ?s = "s\<lparr>loading := True, error := JNull\<rparr>"
  have "\<not> nullish (sessionData ?s)" "\<not> nullish (currentQuestion ?s)"
    using q sd by (simp_all add: truthy_not_nullish)
  from build_form_Inr [OF this, of h "txt" a]
  obtain f where f: "build_form h ?s txt a = Inr f" by blast
  show ?thesis using q r f
    by (intro exI [of _ f]) (simp add: submitAnswer_def submit_try_def split: sum.splits)
qed

text \<open>The parts of claim C5 about a JSON error body hold.\<close>

lemma json_error_detail_surfaced:
  assumes "truthy (currentQuestion s)" and "\<not> nullish (sessionData s)"
    and "\<not> ok r" and "\<not> body_null r" and "body_json r = Some v" and "\<not> nullish v"
  shows "error (fst (snd (submitAnswer h (\<lambda>_. Responded r) s txt a))) =
           JStr (str_or (to_string (js_or (js_prop v ''detail'')
                   (js_or (js_prop v ''error'') (JStr ''Failed to submit answer''))))
                 ''Network error occurred'')"
  using submitAnswer_not_ok [OF assms(1-3), of h "txt" a] error_message_json [OF assms(4-6), of h]
  by auto

lemma unreadable_error_body_surfaced:
  assumes "truthy (currentQuestion s)" and "\<not> nullish (sessionData s)"
    and "\<not> ok r" and "\<not> body_null r"
    and "body_json r = None \<or> (\<exists>v. body_json r = Some v \<and> nullish v)"
  shows "error (fst (snd (submitAnswer h (\<lambda>_. Responded r) s txt a))) =
           JStr (str_or (body_used_msg h) ''Network error occurred'')"
  using submitAnswer_not_ok [OF assms(1-3), of h "txt" a]
    error_message_unreadable [OF assms(4-5), of h]
  by auto

lemma json_error_alerted_twice:
  assumes "truthy (currentQuestion s)" and "\<not> nullish (sessionData s)"
    and "\<not> ok r" and "\<not> body_null r" and "body_json r = Some v" and "\<not> nullish v"
    and "m = to_string (js_or (js_prop v ''detail'')
                   (js_or (js_prop v ''error'') (JStr ''Failed to submit answer'')))"
    and "\<not> str_includes m ''Server error''"
  shows "filter is_alert (snd (snd (submitAnswer h (\<lambda>_. Responded r) s txt a))) =
           [Alert (''Error: '' @ m),
            Alert ''Failed to submit answer. Please check your connection and try again.'']"
  using submitAnswer_not_ok [OF assms(1-3), of h "txt" a] error_message_json [OF assms(4-6), of h]
    assms(7,8)
  by (auto simp: is_alert_def)

text \<open>
  Claim C5. The claim holds for JSON error bodies (\<open>json_error_detail_surfaced\<close>, and
  the body \<^verbatim>\<open>{"detail": "bad audio format"}\<close> surfaces ``bad audio format''). It fails for
  a body that is not JSON: \<^verbatim>\<open>response.json()\<close> has consumed the body when it rejects, so
  the \<^verbatim>\<open>response.text()\<close> of line 69 rejects too, line 71 is never reached, and the
  message shown is the one of the host's TypeError, announced by the generic alert. Here
  the code is run on a 500 response with the body ``Internal Server Error''; the claim asks
  for ``Server error (500): Internal Server Error''.
\<close>

theorem unparseable_error_body_loses_text:
  "error (fst (snd (submitAnswer demo_host (\<lambda>f. Responded plain_500_response)
                      demo_interview ''=SUM(A1:A5)'' None)))
     = JStr ''Response.text: Body has already been consumed.'' \<and>
   filter is_alert (snd (snd (submitAnswer demo_host (\<lambda>f. Responded plain_500_response)
                                demo_interview ''=SUM(A1:A5)'' None)))
     = [Alert ''Failed to submit answer. Please check your connection and try again.'']"
  by (simp add: interview_defs demo_defs plain_500_response_def is_alert_def)

text \<open>
  Claim C6. The claim fails: a non-2xx response with a JSON body raises the alert of line 75
  and, because its message does not contain ``Server error'', also the generic alert of line
  113. Here the code is run on a 400 response with the body
  \<^verbatim>\<open>{"detail": "bad audio format"}\<close>: one failure, two alerts.
\<close>

theorem json_failure_alerted_twice:
  "filter is_alert (snd (snd (submitAnswer demo_host (\<lambda>f. Responded bad_audio_response)
                                demo_interview ''=SUM(A1:A5)'' None)))
     = [Alert ''Error: bad audio format'',
        Alert ''Failed to submit answer. Please check your connection and try again.'']"
  by (simp add: interview_defs demo_defs bad_audio_response_def is_alert_def)

section \<open>Properties of Answer Capture inside Interview Flow\<close>

lemmas capture_defs =
  handleSubmit_def interview_onSubmit_def hasText_def hasAudio_def wrap_audio_def new_File_def
  trim_def is_ws_def capture_init_def

lemma interview_onSubmit_resolves:
  "interview_onSubmit h net t f (s, log) \<noteq> (Inl e, p')"
  using submitAnswer_resolves [of h net s t f]
  by (cases "submitAnswer h net s t f") (auto simp: interview_onSubmit_def)

lemma accepted_submission_always_clears:
  assumes "hasText c \<or> hasAudio c" and "\<not> file_ctor_throws h"
  shows "answerText (fst (handleSubmit h (interview_onSubmit h net) (c, s, log))) = [] \<and>
         audioBlob (fst (handleSubmit h (interview_onSubmit h net) (c, s, log))) = None"
  using assms
  by (auto simp: handleSubmit_def hasAudio_def wrap_audio_def new_File_def Let_def
      interview_onSubmit_resolves split: option.splits prod.splits sum.splits)

text \<open>
  Claim C1. The claim fails for failed submissions: \<^verbatim>\<open>submitAnswer\<close> handles its own
  errors and its promise always resolves, so the \<^verbatim>\<open>catch\<close> clause of
  \<^verbatim>\<open>handleSubmit\<close> that would keep the form is never entered. Here the code is run on
  an answer with text and audio and a 400 response: the flow shows the error and the form
  is empty.
\<close>

theorem failed_submission_clears_form:
  "answerText demo_capture = ''=SUM(A1:A5)'' \<and>
   audioBlob demo_capture = Some demo_blob \<and>
   view (fst (snd (handleSubmit demo_host
                     (interview_onSubmit demo_host (\<lambda>f. Responded bad_audio_response))
                     (demo_capture, demo_interview, [])))) = Errored \<and>
   answerText (fst (handleSubmit demo_host
                     (interview_onSubmit demo_host (\<lambda>f. Responded bad_audio_response))
                     (demo_capture, demo_interview, []))) = [] \<and>
   audioBlob (fst (handleSubmit demo_host
                     (interview_onSubmit demo_host (\<lambda>f. Responded bad_audio_response))
                     (demo_capture, demo_interview, []))) = None"
  by (simp add: capture_defs demo_capture_def demo_blob_def interview_defs demo_defs
      bad_audio_response_def)

section \<open>Properties of the Session Shell\<close>

lemma dropWhile_ws_Nil: "dropWhile is_ws s = [] \<longleftrightarrow> (\<forall>c \<in> set s. is_ws c)"
  by (rule dropWhile_eq_Nil_conv)

lemma trim_empty_iff: "trim s = [] \<longleftrightarrow> (\<forall>c \<in> set s. is_ws c)"
proof
  assume "trim s = []"
  then have "dropWhile is_ws (rev (dropWhile is_ws s)) = []"
    by (simp add: trim_def)
  then have all: "\<forall>x \<in> set (dropWhile is_ws s). is_ws x"
    by (simp only: dropWhile_ws_Nil set_rev)
  have "dropWhile is_ws s = []"
  proof (rule ccontr)
    assume ne: "dropWhile is_ws s \<noteq> []"
    then have "\<not> is_ws (hd (dropWhile is_ws s))" by (rule hd_dropWhile)
    moreover from ne have "hd (dropWhile is_ws s) \<in> set (dropWhile is_ws s)" by simp
    ultimately show False using all by blast
  qed
  then show "\<forall>c \<in> set s. is_ws c" by (simp only: dropWhile_ws_Nil)
next
  assume "\<forall>c \<in> set s. is_ws c"
  then have "dropWhile is_ws s = []" by (simp only: dropWhile_ws_Nil)
  then show "trim s = []" by (simp only: trim_def rev.simps dropWhile.simps)
qed

text \<open>
  Claim C10. For a name whose trimmed form is empty (by \<open>trim_empty_iff\<close>: a name of
  white space only) the start button is disabled, and \<^verbatim>\<open>handleStart\<close> only raises the
  alert ``Please enter your name'': the state of the shell and of the form is unchanged, so
  the view stays where it was, and no session-creation request is among the effects.
\<close>

theorem blank_name_blocks_start:
  assumes "trim (name st) = []"
  shows "start_disabled st \<and>
         handleStart h net (a, st) = ((a, st), [AppAlert ''Please enter your name'']) \<and>
         filter is_request (snd (handleStart h net (a, st))) = [] \<and>
         currentView (fst (fst (handleStart h net (a, st)))) = currentView a"
  using assms by (simp add: start_disabled_def handleStart_def is_request_def)

theorem blank_name_blocks_start_witness:
  "trim (name \<lparr>name = ''   '', experience = ''beginner'', setup_loading = False\<rparr>) = [] \<and>
   start_disabled \<lparr>name = ''   '', experience = ''beginner'', setup_loading = False\<rparr> \<and>
   handleStart demo_host (\<lambda>n x. Responded success_response)
     (\<lparr>currentView = Home, app_sessionData = JNull\<rparr>,
      \<lparr>name = ''   '', experience = ''beginner'', setup_loading = False\<rparr>)
   = ((\<lparr>currentView = Home, app_sessionData = JNull\<rparr>,
       \<lparr>name = ''   '', experience = ''beginner'', setup_loading = False\<rparr>),
      [AppAlert ''Please enter your name''])"
proof -
  have blank: "trim (name \<lparr>name = ''   '', experience = ''beginner'', setup_loading = False\<rparr>) = []"
    by (simp add: trim_def is_ws_def)
  show ?thesis
    using blank
      blank_name_blocks_start [OF blank, of demo_host "\<lambda>n x. Responded success_response"
        "\<lparr>currentView = Home, app_sessionData = JNull\<rparr>"]
    by simp
qed

lemma named_start_issues_request:
  assumes "trim (name st) \<noteq> []"
  shows "filter is_request (snd (handleStart h net (a, st))) = [StartRequest (name st) (experience st)]"
  using assms
  by (simp add: handleStart_def is_request_def Let_def split: fetch_outcome.splits sum.splits)

section \<open>Properties of Answer Capture\<close>

lemma run_invariant:
  assumes "P c" and "\<And>c ev. P c \<Longrightarrow> P (step h ev c)"
  shows "P (run h evs c)"
  using assms(1) unfolding run_def
  by (induction evs arbitrary: c) (simp_all add: assms(2))

lemma sum_list_pos:
  assumes "list_all (\<lambda>d. 0 < blob_size d) ds" and "ds \<noteq> []"
  shows "0 < sum_list (map blob_size ds)"
  using assms by (cases ds) simp_all

lemma handleSubmit_blob_inv:
  assumes "blob_inv c"
  shows "blob_inv (fst (handleSubmit h cb (c, p)))"
  using assms
  by (auto simp: handleSubmit_def blob_inv_def split: option.splits sum.splits prod.splits)

lemma step_blob_inv:
  assumes "blob_inv c"
  shows "blob_inv (step h ev c)"
proof (cases ev)
  case (MediaResult res)
  with assms show ?thesis
    by (cases res)
      (simp_all add: step_def startRecording_resume_def blob_inv_def setters_ignored_def)
next
  case (StopEvent r)
  with assms show ?thesis
    by (auto simp: step_def onstop_def blob_inv_def Let_def sum_list_pos setters_ignored_def)
next
  case (ClickSubmit outcome)
  with assms show ?thesis
    by (simp add: step_def handleSubmit_blob_inv)
next
  case ClickStop
  with assms show ?thesis
    by (simp add: step_def stopRecording_def blob_inv_def Let_def split: option.splits)
qed (use assms in \<open>simp_all add: step_def blob_inv_def startRecording_call_def
      ondataavailable_def onerror_def clearRecording_def setters_ignored_def\<close>)

lemma reachable_blob_inv: "blob_inv (run h evs capture_init)"
proof (rule run_invariant)
  show "blob_inv capture_init" by (simp add: blob_inv_def capture_init_def)
next
  fix c ev
  assume "blob_inv c"
  then show "blob_inv (step h ev c)" by (rule step_blob_inv)
qed

lemma hasText_trim: "hasText c \<longleftrightarrow> trim (answerText c) \<noteq> []"
  by (auto simp: hasText_def trim_def)

lemma reachable_hasAudio:
  assumes "c = run h evs capture_init"
  shows "hasAudio c \<longleftrightarrow> audioBlob c \<noteq> None"
  using reachable_blob_inv [of h evs] assms
  by (auto simp: blob_inv_def hasAudio_def split: option.splits)

lemmas run_defs =
  run_def step_def capture_init_def start_control_available_def startRecording_call_def
  startRecording_resume_def ondataavailable_def stopRecording_def recorder_stop_def onstop_def
  stop_tracks_def onerror_def clearRecording_def submit_disabled_def choose_mimeType_def
  str_or_def setters_ignored_def

text \<open>
  Claim C4, as stated, fails: an answer with recorded audio is not in the rejected class,
  but on a host whose \<^verbatim>\<open>File\<close> constructor throws, lines 136--140 raise an alert and
  return before the callback is invoked.
\<close>

theorem file_failure_blocks_submission:
  "\<not> (trim (answerText (run legacy_host record_audio capture_init)) = [] \<and>
      audioBlob (run legacy_host record_audio capture_init) = None) \<and>
   snd (handleSubmit legacy_host recording_callback
          (run legacy_host record_audio capture_init, [])) = [] \<and>
   alerts (fst (handleSubmit legacy_host recording_callback
          (run legacy_host record_audio capture_init, [])))
     = [''Error processing audio. Please try recording again.'']"
  by (simp add: run_defs record_audio_def demo_blob_def legacy_host_def demo_host_def
      handleSubmit_def hasText_def hasAudio_def wrap_audio_def new_File_def trim_def is_ws_def
      recording_callback_def)

text \<open>
  Claim C4, amended. In every reachable state of the component the submit action has three
  outcomes. If the trimmed text is empty and no audio object is held, a warning is raised
  and the callback is not invoked (and the submit button is disabled). Otherwise, if audio
  is held and wrapping it as a file throws, an error alert is raised and the callback is not
  invoked. In every other case the callback is invoked once, with the trimmed text and the
  audio wrapped as \<^verbatim>\<open>answer.webm\<close> or \<^verbatim>\<open>answer.wav\<close> (or no file), and the form is
  cleared when it returns.
\<close>

theorem submission_accepted_or_rejected:
  assumes "c = run h evs capture_init"
  shows "(trim (answerText c) = [] \<and> audioBlob c = None \<longrightarrow> submit_disabled c) \<and>
   handleSubmit h recording_callback (c, calls) =
     (if trim (answerText c) = [] \<and> audioBlob c = None then
        (c\<lparr>alerts := alerts c @
             [''Please provide an answer by typing text or recording audio.'']\<rparr>, calls)
      else if audioBlob c \<noteq> None \<and> file_ctor_throws h then
        (c\<lparr>alerts := alerts c @
             [''Error processing audio. Please try recording again.'']\<rparr>, calls)
      else
        (c\<lparr>answerText := [], audioBlob := None\<rparr>,
         calls @ [(trim (answerText c),
                   case audioBlob c of
                     None \<Rightarrow> None
                   | Some b \<Rightarrow>
                       Some \<lparr>file_name =
                               (if str_includes (str_or (blob_type b) ''audio/wav'') ''webm''
                                then ''answer.webm'' else ''answer.wav''),
                             file_size = blob_size b,
                             file_type = str_or (blob_type b) ''audio/wav''\<rparr>)]))"
proof (cases "audioBlob c")
  case None
  then show ?thesis
    by (simp add: handleSubmit_def hasText_trim hasAudio_def recording_callback_def str_or_def
        submit_disabled_def)
next
  case (Some b)
  with reachable_hasAudio [OF assms] have "hasAudio c" by simp
  with Some show ?thesis
    by (simp add: handleSubmit_def wrap_audio_def new_File_def recording_callback_def
        str_or_def Let_def)
qed

theorem submission_accepted_or_rejected_witness:
  "handleSubmit demo_host recording_callback (run demo_host record_audio capture_init, []) =
     ((run demo_host record_audio capture_init)\<lparr>answerText := [], audioBlob := None\<rparr>,
      [([], Some demo_file)])"
  using submission_accepted_or_rejected [OF refl, of demo_host record_audio "[]"]
  by (simp add: run_defs record_audio_def demo_blob_def demo_host_def demo_file_def
      trim_def is_ws_def)

subsection \<open>The microphone\<close>

text \<open>
  The stop handler of a recorder stops every track of the recorder's stream, after either
  branch, chunks or no chunks; so does the delivery of a queued stop event, also to an
  unmounted instance.
\<close>

lemma onstop_releases:
  assumes "r < length (recorders c)" and "rec_stream (recorders c ! r) < length (streams c)"
  shows "released (onstop r c) r"
  using assms by (simp add: onstop_def Let_def released_def stop_tracks_def list_all_iff)

lemma stop_event_releases:
  assumes "r < length (recorders c)" and "stop_queued (recorders c ! r)"
    and "rec_stream (recorders c ! r) < length (streams c)"
  shows "released (step h (StopEvent r) c) r"
  using assms
  by (simp add: step_def setters_ignored_def onstop_def Let_def released_def stop_tracks_def
      list_all_iff)

text \<open>
  The error handler itself leaves the recorders and the tracks as they are; the release on
  the error path is the work of the stop event that follows.
\<close>

lemma onerror_keeps_tracks: "streams (onerror c) = streams c \<and> recorders (onerror c) = recorders c"
  by (simp add: onerror_def)

text \<open>
  The unmount touches no host object, and no control of an unmounted instance is left: its
  user events change nothing.
\<close>

lemma unmount_keeps_host:
  "recorders (step h Unmount c) = recorders c \<and> streams (step h Unmount c) = streams c \<and>
   \<not> mounted (step h Unmount c)"
  by (simp add: step_def)

lemma unmounted_controls_gone:
  assumes "\<not> mounted c"
  shows "step h ClickStart c = c \<and> step h ClickStop c = c \<and> step h ClickClear c = c \<and>
         step h (TypeText v) c = c \<and> step h (SetDisabled b) c = c \<and>
         step h (ClickSubmit outcome) c = c"
  using assms by (simp add: step_def)

text \<open>
  Claim C9. The claim holds where the recorder itself ends: \<^verbatim>\<open>onstop\<close> stops the tracks
  in both branches (\<open>onstop_releases\<close>). It fails on the other ways out of an active
  recording, because the component has no cleanup. While recording, the submit button is
  enabled as soon as text is typed; the accepted submission sets \<open>loading\<close>, the flow
  renders without the component, and the instance is unmounted with its recorder still
  recording and its track live; the Home button does the same. No stop control is left, and
  a component mounted later has no reference to that recorder. On the error path after the
  acquisition, when the recorder cannot be set up, the \<^verbatim>\<open>catch\<close> clause only raises an
  alert and the acquired stream keeps its track. Here the code is run on these three inputs.
\<close>

theorem microphone_held_after_unmount:
  "\<not> submit_disabled (run demo_host typed_while_recording capture_init) \<and>
   \<not> renders_capture (demo_interview\<lparr>loading := True, error := JNull\<rparr>) \<and>
   \<not> mounted (run demo_host submit_while_recording capture_init) \<and>
   active_recordings (run demo_host submit_while_recording capture_init) = 1 \<and>
   \<not> released (run demo_host submit_while_recording capture_init) 0 \<and>
   step demo_host ClickStop (run demo_host submit_while_recording capture_init)
     = run demo_host submit_while_recording capture_init \<and>
   active_recordings (run demo_host home_while_recording capture_init) = 1 \<and>
   \<not> released (run demo_host home_while_recording capture_init) 0 \<and>
   recorders (run demo_host recorder_setup_fails capture_init) = [] \<and>
   streams (run demo_host recorder_setup_fails capture_init) = [[True]] \<and>
   alerts (run demo_host recorder_setup_fails capture_init)
     = [''Failed to access microphone. Please check permissions and try again.'']"
  by (simp add: run_defs typed_while_recording_def submit_while_recording_def
      home_while_recording_def recorder_setup_fails_def demo_host_def active_recordings_def
      released_def renders_capture_def view_def microphone_error_def
      handleSubmit_def hasText_def hasAudio_def trim_def is_ws_def)

text \<open>
  Claim C8. The start control is rendered when \<open>isRecording\<close> is false and no audio
  object is held, but \<open>isRecording\<close> is only set after \<^verbatim>\<open>await getUserMedia\<close>. Two
  clicks before the host answers start two recorders; the second overwrites
  \<open>mediaRecorderRef\<close>, so the stop control stops only the second. Here the code is run on
  that trace: two recordings are active at once, and after stopping, with no audio kept,
  the start control is available again while the first recording still runs and holds the
  microphone.
\<close>

theorem double_start_two_recordings:
  "active_recordings (run demo_host double_start capture_init) = 2 \<and>
   start_control_available (run demo_host (double_start @ [ClickStop, StopEvent 1]) capture_init) \<and>
   active_recordings (run demo_host (double_start @ [ClickStop, StopEvent 1]) capture_init) = 1 \<and>
   \<not> released (run demo_host (double_start @ [ClickStop, StopEvent 1]) capture_init) 0"
  by (simp add: run_defs double_start_def demo_host_def active_recordings_def released_def)

end
